theory Spec2Isabelle
  imports Complex_Main "HOL-Library.Sublist"
begin

section \<open>JavaScript values\<close>

text \<open>
  Request bodies are what \<^verbatim>\<open>express.json()\<close> hands to the handlers: parsed JSON.
  Numbers are exact rationals (the rounding of JavaScript's binary64 numbers is not
  modelled), strings are lists of ASCII characters, and an object is the list of its
  entries in the order of the JSON text. A request body is an object (the empty one
  when the request carries no JSON).
\<close>

datatype json =
    JNull
  | JBool bool
  | JNum rat
  | JStr string
  | JArr "json list"
  | JObj "(string \<times> json) list"

type_synonym js_object = "(string \<times> json) list"

text \<open>
  Reading a property: \<open>None\<close> is JavaScript's \<^verbatim>\<open>undefined\<close>. When a JSON text repeats
  a key the parser keeps the last entry.
\<close>

definition get_prop :: "js_object \<Rightarrow> string \<Rightarrow> json option" where
  "get_prop obj k = map_of (rev obj) k"

text \<open>Truthiness, as \<^verbatim>\<open>!x\<close> and \<^verbatim>\<open>x || y\<close> test it.\<close>

fun truthy :: "json option \<Rightarrow> bool" where
  "truthy None = False"
| "truthy (Some JNull) = False"
| "truthy (Some (JBool b)) = b"
| "truthy (Some (JNum r)) = (r \<noteq> 0)"
| "truthy (Some (JStr s)) = (s \<noteq> [])"
| "truthy (Some (JArr vs)) = True"
| "truthy (Some (JObj kvs)) = True"

text \<open>\<^verbatim>\<open>Array.isArray(x)\<close> and \<^verbatim>\<open>x.length === 0\<close> for an array.\<close>

fun isArray :: "json option \<Rightarrow> bool" where
  "isArray (Some (JArr vs)) = True"
| "isArray _ = False"

fun array_length :: "json option \<Rightarrow> nat" where
  "array_length (Some (JArr vs)) = length vs"
| "array_length _ = 0"

subsection \<open>Characters\<close>

definition is_digit :: "char \<Rightarrow> bool" where
  "is_digit c = (c \<in> set ''0123456789'')"

subsection \<open>Conversion of a value to a string\<close>

text \<open>
  \<^verbatim>\<open>RegExp.prototype.test\<close> converts its argument with \<^verbatim>\<open>ToString\<close>. A number that
  is an integer of magnitude below \<open>10^21\<close> is printed as its decimal digits; any other
  number is printed with a decimal point or an exponent, and the model records only
  that (\<open>Non_digit_text\<close>: some text holding a character outside \<^verbatim>\<open>0-9\<close>). An array
  is the comma-separated join of its elements, where \<^verbatim>\<open>null\<close> contributes the empty
  string. An object prints as \<^verbatim>\<open>[object Object]\<close>, unless it has an own entry
  \<^verbatim>\<open>toString\<close>: that entry is not callable, \<^verbatim>\<open>valueOf\<close> yields no primitive either,
  and the conversion throws a \<^verbatim>\<open>TypeError\<close>.
\<close>

datatype rendering = Text string | Non_digit_text

datatype 'a attempt = Returns 'a | Throws

fun show_nat :: "nat \<Rightarrow> string" where
  "show_nat n =
     (if n < 10 then [''0123456789'' ! n]
      else show_nat (n div 10) @ [''0123456789'' ! (n mod 10)])"

definition num_text :: "rat \<Rightarrow> rendering" where
  "num_text r =
     (if r = of_int \<lfloor>r\<rfloor> \<and> \<bar>r\<bar> < 10 ^ 21
      then Text ((if r < 0 then ''-'' else []) @ show_nat (nat \<bar>\<lfloor>r\<rfloor>\<bar>))
      else Non_digit_text)"

fun text_append :: "rendering \<Rightarrow> rendering \<Rightarrow> rendering" where
  "text_append (Text a) (Text b) = Text (a @ b)"
| "text_append _ _ = Non_digit_text"

fun join_texts :: "rendering list \<Rightarrow> rendering" where
  "join_texts [] = Text []"
| "join_texts [t] = t"
| "join_texts (t # u # ts) = text_append t (text_append (Text '','') (join_texts (u # ts)))"

fun collect :: "'a attempt list \<Rightarrow> 'a list attempt" where
  "collect [] = Returns []"
| "collect (Throws # as) = Throws"
| "collect (Returns a # as) = (case collect as of Throws \<Rightarrow> Throws | Returns xs \<Rightarrow> Returns (a # xs))"

fun js_text :: "json \<Rightarrow> rendering attempt" where
  "js_text JNull = Returns (Text ''null'')"
| "js_text (JBool b) = Returns (Text (if b then ''true'' else ''false''))"
| "js_text (JNum r) = Returns (num_text r)"
| "js_text (JStr s) = Returns (Text s)"
| "js_text (JArr vs) =
     (case collect (map (\<lambda>v. if v = JNull then Returns (Text []) else js_text v) vs) of
        Throws \<Rightarrow> Throws
      | Returns ts \<Rightarrow> Returns (join_texts ts))"
| "js_text (JObj kvs) =
     (if ''toString'' \<in> fst ` set kvs then Throws else Returns (Text ''[object Object]''))"

text \<open>The pattern \<^verbatim>\<open>/^[0-9]+$/\<close>: one or more characters, all of them digits.\<close>

definition digits_only :: "string \<Rightarrow> bool" where
  "digits_only s = (s \<noteq> [] \<and> (\<forall>c \<in> set s. is_digit c))"

definition test_digits :: "json \<Rightarrow> bool attempt" where
  "test_digits v =
     (case js_text v of
        Throws \<Rightarrow> Throws
      | Returns (Text s) \<Rightarrow> Returns (digits_only s)
      | Returns Non_digit_text \<Rightarrow> Returns False)"

text \<open>
  \<^verbatim>\<open>phone.length\<close>, read only after the digits test has passed. A string and an array
  have a length; a number and a boolean have none (\<^verbatim>\<open>undefined\<close>, \<open>None\<close>), and
  \<^verbatim>\<open>undefined < 8\<close> is false. The digits test fails or throws on every object and on
  \<^verbatim>\<open>null\<close>, so their equations are never consulted by the handler.
\<close>

fun js_length :: "json \<Rightarrow> nat option" where
  "js_length (JStr s) = Some (length s)"
| "js_length (JArr vs) = Some (length vs)"
| "js_length _ = None"

definition length_below :: "json \<Rightarrow> nat \<Rightarrow> bool" where
  "length_below v n = (case js_length v of None \<Rightarrow> False | Some l \<Rightarrow> l < n)"

section \<open>The document store\<close>

text \<open>
  The MongoDB driver is not part of the repository. A stored field holds a JSON value,
  a date (\<^verbatim>\<open>new Date()\<close>) or a store-generated identifier; a document is the list of
  its fields, a collection the list of its documents in insertion order. Identifiers
  are drawn from a counter.
\<close>

datatype bson = Json json | Date nat | Oid nat

type_synonym doc = "(string \<times> bson) list"

definition field :: "doc \<Rightarrow> string \<Rightarrow> bson option" where
  "field d k = map_of d k"

record store =
  lessons :: "doc list"
  orders :: "doc list"
  next_oid :: nat

definition insertOne_orders :: "doc \<Rightarrow> store \<Rightarrow> nat \<times> store" where
  "insertOne_orders d st =
     (next_oid st,
      st\<lparr>orders := orders st @ [(''_id'', Oid (next_oid st)) # d], next_oid := Suc (next_oid st)\<rparr>)"

section \<open>HTTP responses\<close>

datatype payload = Docs "doc list" | Object doc

record response =
  status :: nat
  payload :: payload

text \<open>
  A handler either sends a response, or an exception escapes it (the promise of the
  \<^verbatim>\<open>async\<close> handler rejects and the handler itself sends nothing).
\<close>

datatype outcome = Sent response | Escaped

definition error_response :: "nat \<Rightarrow> string \<Rightarrow> outcome" where
  "error_response code msg = Sent \<lparr>status = code, payload = Object [(''error'', Json (JStr msg))]\<rparr>"

section \<open>Creating an order\<close>

text \<open>\<^verbatim>\<open>total || 0\<close>\<close>

definition or_zero :: "json option \<Rightarrow> json" where
  "or_zero t = (case t of None \<Rightarrow> JNum 0 | Some v \<Rightarrow> if truthy (Some v) then v else JNum 0)"

text \<open>
  \<open>handleCreateOrder now store_fails body st\<close>: \<open>now\<close> is the clock read by
  \<^verbatim>\<open>new Date()\<close>, \<open>store_fails\<close> tells whether \<^verbatim>\<open>insertOne\<close> throws (then nothing is
  written), \<open>body\<close> is \<^verbatim>\<open>req.body\<close>.
\<close>

definition handleCreateOrder :: "nat \<Rightarrow> bool \<Rightarrow> js_object \<Rightarrow> store \<Rightarrow> outcome \<times> store" where
  "handleCreateOrder now store_fails body st =
     (let name = get_prop body ''name''; phone = get_prop body ''phone'';
          items = get_prop body ''items''; total = get_prop body ''total''
      in if \<not> truthy name \<or> \<not> truthy phone \<or> \<not> isArray items \<or> array_length items = 0
         then (error_response 400 ''Missing name, phone, or items.'', st)
         else
           (case (name, phone, items) of
              (Some n, Some p, Some i) \<Rightarrow>
                (case test_digits p of
                   Throws \<Rightarrow> (Escaped, st)
                 | Returns phoneDigitsOnly \<Rightarrow>
                     if \<not> phoneDigitsOnly \<or> length_below p 8
                     then (error_response 400
                             ''Phone number must be at least 8 digits and contain only numbers.'', st)
                     else
                       (let orderDoc = [(''name'', Json n), (''phone'', Json p), (''items'', Json i),
                                        (''total'', Json (or_zero total)), (''createdAt'', Date now)]
                        in if store_fails
                           then (error_response 500 ''Failed to save order'', st)
                           else
                             (let (insertedId, st') = insertOne_orders orderDoc st
                              in (Sent \<lparr>status = 201,
                                        payload = Object [(''message'', Json (JStr ''Order saved'')),
                                                          (''orderId'', Oid insertedId)]\<rparr>, st'))))
            | _ \<Rightarrow> (error_response 400 ''Missing name, phone, or items.'', st)))"

text \<open>\<^verbatim>\<open>app.post("/orders", handleCreateOrder)\<close> and its alias \<^verbatim>\<open>app.post("/order", ...)\<close>.\<close>

definition post_orders :: "nat \<Rightarrow> bool \<Rightarrow> js_object \<Rightarrow> store \<Rightarrow> outcome \<times> store" where
  "post_orders = handleCreateOrder"

definition post_order :: "nat \<Rightarrow> bool \<Rightarrow> js_object \<Rightarrow> store \<Rightarrow> outcome \<times> store" where
  "post_order = handleCreateOrder"

text \<open>
  A client that submits the same body several times; each submission has its own
  clock reading and its own store outcome. The result is the store after the last one.
\<close>

fun resubmit :: "(nat \<Rightarrow> bool \<Rightarrow> js_object \<Rightarrow> store \<Rightarrow> outcome \<times> store) \<Rightarrow> js_object
                 \<Rightarrow> (nat \<times> bool) list \<Rightarrow> store \<Rightarrow> store" where
  "resubmit h body [] st = st"
| "resubmit h body ((now, store_fails) # rest) st = resubmit h body rest (snd (h now store_fails body st))"

section \<open>Strings and numerals\<close>

text \<open>
  \<^verbatim>\<open>String.prototype.trim\<close> and \<^verbatim>\<open>toLowerCase\<close> on ASCII: the white space characters
  are tab, line feed, vertical tab, form feed, carriage return and space; the letters
  \<^verbatim>\<open>A-Z\<close> are the only ones with a lower-case form.
\<close>

definition is_space :: "char \<Rightarrow> bool" where
  "is_space c = (c \<in> set [CHR 0x09, CHR 0x0A, CHR 0x0B, CHR 0x0C, CHR 0x0D, CHR 0x20])"

definition trim :: "string \<Rightarrow> string" where
  "trim s = rev (dropWhile is_space (rev (dropWhile is_space s)))"

definition to_lower :: "char \<Rightarrow> char" where
  "to_lower c =
     (case map_of (zip ''ABCDEFGHIJKLMNOPQRSTUVWXYZ'' ''abcdefghijklmnopqrstuvwxyz'') c of
        None \<Rightarrow> c
      | Some l \<Rightarrow> l)"

definition toLowerCase :: "string \<Rightarrow> string" where
  "toLowerCase s = map to_lower s"

text \<open>The value of a digit in a radix up to 16, and of a digit string.\<close>

definition digit_of :: "char \<Rightarrow> nat option" where
  "digit_of c =
     map_of (zip ''0123456789abcdef'' [0, 1, 2, 3, 4, 5, 6, 7, 8, 9, 10, 11, 12, 13, 14, 15]
             @ zip ''ABCDEF'' [10, 11, 12, 13, 14, 15]) c"

definition is_digit_in :: "nat \<Rightarrow> char \<Rightarrow> bool" where
  "is_digit_in b c = (case digit_of c of None \<Rightarrow> False | Some v \<Rightarrow> v < b)"

definition digits_value :: "nat \<Rightarrow> string \<Rightarrow> nat" where
  "digits_value b ds = foldl (\<lambda>acc c. acc * b + (case digit_of c of None \<Rightarrow> 0 | Some v \<Rightarrow> v)) 0 ds"

text \<open>
  An optional sign in front of a numeral: the flag tells whether it was \<^verbatim>\<open>-\<close>, the
  string is what follows the sign.
\<close>

definition split_sign :: "string \<Rightarrow> bool \<times> string" where
  "split_sign s =
     (case s of
        [] \<Rightarrow> (False, s)
      | c # r \<Rightarrow> if c = CHR ''-'' then (True, r) else if c = CHR ''+'' then (False, r) else (False, s))"

text \<open>
  \<^verbatim>\<open>parseInt(s, 10)\<close>: leading white space is skipped, a sign is read, then the longest
  run of decimal digits; \<open>None\<close> is \<^verbatim>\<open>NaN\<close>, returned when that run is empty. Whatever
  follows the digits is ignored.
\<close>

definition parseInt10 :: "string \<Rightarrow> int option" where
  "parseInt10 s =
     (let (neg, u) = split_sign (dropWhile is_space s);
          ds = takeWhile is_digit u
      in if ds = [] then None
         else Some ((if neg then - 1 else 1) * int (digits_value 10 ds)))"

text \<open>
  \<^verbatim>\<open>Number(s)\<close> on a string: the whole trimmed string must be a numeric literal, a
  signed decimal literal (with optional fraction and exponent, or \<^verbatim>\<open>Infinity\<close>) or an
  unsigned binary, octal or hexadecimal integer literal; the empty string is \<open>0\<close>.
\<close>

datatype jsnum = Fin rat | PosInf | NegInf | NaN

fun negate :: "jsnum \<Rightarrow> jsnum" where
  "negate (Fin r) = Fin (- r)"
| "negate PosInf = NegInf"
| "negate NegInf = PosInf"
| "negate NaN = NaN"

definition pow10 :: "int \<Rightarrow> rat" where
  "pow10 e = (if 0 \<le> e then 10 ^ nat e else 1 / 10 ^ nat (- e))"

definition exponent_part :: "string \<Rightarrow> int option" where
  "exponent_part s =
     (case s of
        [] \<Rightarrow> Some 0
      | c # r \<Rightarrow>
          if c = CHR ''e'' \<or> c = CHR ''E''
          then (let (neg, ds) = split_sign r
                in if ds \<noteq> [] \<and> (\<forall>x \<in> set ds. is_digit x)
                   then Some ((if neg then - 1 else 1) * int (digits_value 10 ds))
                   else None)
          else None)"

definition unsigned_decimal :: "string \<Rightarrow> jsnum" where
  "unsigned_decimal s =
     (if s = ''Infinity'' then PosInf
      else
        (let ip = takeWhile is_digit s; r1 = dropWhile is_digit s;
             (fp, r2) = (case r1 of
                           [] \<Rightarrow> ([], r1)
                         | c # r \<Rightarrow> if c = CHR ''.''
                                    then (takeWhile is_digit r, dropWhile is_digit r)
                                    else ([], r1))
         in if ip = [] \<and> fp = [] then NaN
            else (case exponent_part r2 of
                    None \<Rightarrow> NaN
                  | Some e \<Rightarrow> Fin (of_nat (digits_value 10 (ip @ fp)) * pow10 (e - int (length fp))))))"

definition str_decimal :: "string \<Rightarrow> jsnum" where
  "str_decimal s = (let (neg, u) = split_sign s in if neg then negate (unsigned_decimal u) else unsigned_decimal u)"

definition non_decimal :: "string \<Rightarrow> jsnum option" where
  "non_decimal s =
     (case s of
        z # x # ds \<Rightarrow>
          if z = CHR ''0'' \<and> x \<in> set ''xXoObB''
          then (let b = (if x \<in> set ''xX'' then 16 else if x \<in> set ''oO'' then 8 else 2)
                in if ds \<noteq> [] \<and> (\<forall>d \<in> set ds. is_digit_in b d)
                   then Some (Fin (of_nat (digits_value b ds)))
                   else Some NaN)
          else None
      | _ \<Rightarrow> None)"

definition Number_js :: "string \<Rightarrow> jsnum" where
  "Number_js s =
     (let t = trim s
      in if t = [] then Fin 0
         else (case non_decimal t of Some n \<Rightarrow> n | None \<Rightarrow> str_decimal t))"

section \<open>Queries and updates of the store\<close>

subsection \<open>Regular expressions\<close>

text \<open>
  The search hands the term to the store as the pattern of a \<^verbatim>\<open>$regex\<close> with option
  \<^verbatim>\<open>i\<close>. The fragment of the pattern language modelled here: every pattern character
  stands for itself, compared without regard to case, except \<^verbatim>\<open>.\<close>, which matches any
  character but a line feed. A pattern holding any other special character (another
  metacharacter, or a NUL, which a pattern cannot hold) is outside the fragment
  (\<open>None\<close>); such patterns include those the engine rejects. The match is unanchored:
  the pattern may match anywhere in the text.
\<close>

datatype rx_atom = Lit char | Any_char

definition rx_special :: "char set" where
  "rx_special = insert (CHR 0x00) (insert (CHR 0x5C) (set ''^$.|?*+()[]{}''))"

definition compile_regex :: "string \<Rightarrow> rx_atom list option" where
  "compile_regex p =
     (if \<forall>c \<in> set p. c = CHR ''.'' \<or> c \<notin> rx_special
      then Some (map (\<lambda>c. if c = CHR ''.'' then Any_char else Lit c) p)
      else None)"

fun atom_matches :: "rx_atom \<Rightarrow> char \<Rightarrow> bool" where
  "atom_matches (Lit c) d = (to_lower c = to_lower d)"
| "atom_matches Any_char d = (d \<noteq> CHR 0x0A)"

fun matches_at :: "rx_atom list \<Rightarrow> string \<Rightarrow> bool" where
  "matches_at [] s = True"
| "matches_at (a # as) [] = False"
| "matches_at (a # as) (c # s) = (atom_matches a c \<and> matches_at as s)"

fun regex_search :: "rx_atom list \<Rightarrow> string \<Rightarrow> bool" where
  "regex_search as [] = matches_at as []"
| "regex_search as (c # s) = (matches_at as (c # s) \<or> regex_search as s)"

subsection \<open>Filters\<close>

text \<open>
  A filter clause compares one field of a document. A field holding an array satisfies
  a clause when one of its elements does; a missing field, a date or an identifier
  satisfies none.
\<close>

datatype clause = Regex_i string string | Equals string jsnum

definition num_equals :: "jsnum \<Rightarrow> json \<Rightarrow> bool" where
  "num_equals n v =
     (case v of
        JNum r \<Rightarrow> n = Fin r
      | JArr vs \<Rightarrow> (\<exists>x \<in> set vs. case x of JNum r \<Rightarrow> n = Fin r | _ \<Rightarrow> False)
      | _ \<Rightarrow> False)"

definition text_matches :: "rx_atom list \<Rightarrow> json \<Rightarrow> bool" where
  "text_matches as v =
     (case v of
        JStr s \<Rightarrow> regex_search as s
      | JArr vs \<Rightarrow> (\<exists>x \<in> set vs. case x of JStr s \<Rightarrow> regex_search as s | _ \<Rightarrow> False)
      | _ \<Rightarrow> False)"

definition on_field :: "(json \<Rightarrow> bool) \<Rightarrow> string \<Rightarrow> doc \<Rightarrow> bool" where
  "on_field P k d = (case field d k of Some (Json v) \<Rightarrow> P v | _ \<Rightarrow> False)"

fun compile_clause :: "clause \<Rightarrow> (doc \<Rightarrow> bool) option" where
  "compile_clause (Regex_i k p) =
     (case compile_regex p of None \<Rightarrow> None | Some as \<Rightarrow> Some (on_field (text_matches as) k))"
| "compile_clause (Equals k n) = Some (on_field (num_equals n) k)"

text \<open>\<^verbatim>\<open>find({ $or: clauses }).toArray()\<close> and \<^verbatim>\<open>find({}).toArray()\<close>.\<close>

definition find_or :: "clause list \<Rightarrow> doc list \<Rightarrow> doc list option" where
  "find_or clauses coll =
     (if \<forall>c \<in> set clauses. compile_clause c \<noteq> None
      then Some (filter (\<lambda>d. \<exists>c \<in> set clauses. case compile_clause c of None \<Rightarrow> False | Some P \<Rightarrow> P d) coll)
      else None)"

definition find_all :: "doc list \<Rightarrow> doc list" where
  "find_all coll = coll"

subsection \<open>Updates\<close>

text \<open>
  \<^verbatim>\<open>updateOne(filter, { $set: patch })\<close> changes the first document that satisfies the
  filter and reports how many documents matched (0 or 1). \<^verbatim>\<open>$set\<close> writes each entry
  of the patch verbatim as a field of the document, in place when the field exists
  and at the end otherwise (field names are taken as they are: the store's dotted
  paths and its rule that \<^verbatim>\<open>_id\<close> cannot change are not modelled).
\<close>

fun set_field :: "string \<Rightarrow> bson \<Rightarrow> doc \<Rightarrow> doc" where
  "set_field k v [] = [(k, v)]"
| "set_field k v ((k', v') # d) = (if k' = k then (k, v) # d else (k', v') # set_field k v d)"

definition set_fields :: "js_object \<Rightarrow> doc \<Rightarrow> doc" where
  "set_fields patch d = foldl (\<lambda>d' (k, v). set_field k (Json v) d') d patch"

fun updateOne :: "(doc \<Rightarrow> bool) \<Rightarrow> (doc \<Rightarrow> doc) \<Rightarrow> doc list \<Rightarrow> nat \<times> doc list" where
  "updateOne f u [] = (0, [])"
| "updateOne f u (d # ds) =
     (if f d then (1, u d # ds)
      else (let (matched, ds') = updateOne f u ds in (matched, d # ds')))"

text \<open>The filter \<^verbatim>\<open>{ id: lessonId }\<close>.\<close>

definition has_id :: "int \<Rightarrow> doc \<Rightarrow> bool" where
  "has_id n d = on_field (num_equals (Fin (of_int n))) ''id'' d"

section \<open>Lesson routes\<close>

text \<open>
  In each handler \<open>store_fails\<close> tells whether the store call of this request throws;
  a call that throws changes nothing.
\<close>

definition ok_docs :: "doc list \<Rightarrow> outcome" where
  "ok_docs ds = Sent \<lparr>status = 200, payload = Docs ds\<rparr>"

text \<open>\<^verbatim>\<open>GET /lessons\<close>\<close>

definition get_lessons :: "bool \<Rightarrow> store \<Rightarrow> outcome" where
  "get_lessons store_fails st =
     (if store_fails then error_response 500 ''Failed to fetch lessons''
      else ok_docs (find_all (lessons st)))"

text \<open>
  \<^verbatim>\<open>GET /search?q=term\<close>; \<open>q\<close> is \<^verbatim>\<open>req.query.q\<close>, \<open>None\<close> when the parameter is
  absent. The branch for an empty term has no \<^verbatim>\<open>try\<close>: a failure of the store escapes.
  The result is \<open>None\<close> when the term is a pattern outside the modelled fragment.
\<close>

definition get_search :: "bool \<Rightarrow> string option \<Rightarrow> store \<Rightarrow> outcome option" where
  "get_search store_fails q st =
     (let term = trim (case q of None \<Rightarrow> [] | Some s \<Rightarrow> s)
      in if term = []
         then Some (if store_fails then Escaped else ok_docs (find_all (lessons st)))
         else
           (let lowerTerm = toLowerCase term;
                numTerm = Number_js term;
                isNumeric = (numTerm \<noteq> NaN);
                query = [Regex_i ''subject'' lowerTerm, Regex_i ''location'' lowerTerm]
                        @ (if isNumeric then [Equals ''price'' numTerm, Equals ''spaces'' numTerm] else [])
            in case find_or query (lessons st) of
                 None \<Rightarrow> None
               | Some results \<Rightarrow>
                   Some (if store_fails then error_response 500 ''Search failed''
                         else ok_docs results)))"

text \<open>
  \<^verbatim>\<open>PUT /lessons/:id\<close>; \<open>idParam\<close> is \<^verbatim>\<open>req.params.id\<close>, \<open>body\<close> is \<^verbatim>\<open>req.body\<close>
  (an object, so \<^verbatim>\<open>req.body || {}\<close> is the body itself).
\<close>

definition put_lesson :: "bool \<Rightarrow> string \<Rightarrow> js_object \<Rightarrow> store \<Rightarrow> outcome \<times> store" where
  "put_lesson store_fails idParam body st =
     (case parseInt10 idParam of
        None \<Rightarrow> (error_response 400 ''Lesson id must be a number'', st)
      | Some lessonId \<Rightarrow>
          (let updateData = body
           in if store_fails then (error_response 500 ''Failed to update lesson'', st)
              else
                (let (matchedCount, ls) = updateOne (has_id lessonId) (set_fields updateData) (lessons st)
                 in if matchedCount = 0
                    then (error_response 404 ''Lesson not found'', st\<lparr>lessons := ls\<rparr>)
                    else (Sent \<lparr>status = 200,
                               payload = Object [(''message'', Json (JStr ''Lesson updated''))]\<rparr>,
                          st\<lparr>lessons := ls\<rparr>))))"

section \<open>The seeder\<close>

text \<open>
  The catalog of \<^verbatim>\<open>scripts/seed.js\<close>, its constant \<^verbatim>\<open>lessons\<close> (called \<open>seed_lessons\<close>
  here, \<open>lessons\<close> being the collection of the store). Every entry has the same seven
  fields, in the order \<open>lesson_doc\<close> gives them.
\<close>

definition lesson_doc :: "int \<Rightarrow> string \<Rightarrow> string \<Rightarrow> int \<Rightarrow> int \<Rightarrow> string \<Rightarrow> string \<Rightarrow> doc" where
  "lesson_doc i subject location price spaces icon img =
     [(''id'', Json (JNum (of_int i))), (''subject'', Json (JStr subject)),
      (''location'', Json (JStr location)), (''price'', Json (JNum (of_int price))),
      (''spaces'', Json (JNum (of_int spaces))), (''icon'', Json (JStr icon)),
      (''image'', Json (JStr img))]"

definition seed_lessons :: "doc list" where
  "seed_lessons =
     [lesson_doc 1 ''Mathematics'' ''Hendon'' 100 5 ''fa-solid fa-calculator''
        ''https://img.icons8.com/color/240/calculator--v1.png'',
      lesson_doc 2 ''English'' ''Colindale'' 80 5 ''fa-solid fa-book-open''
        ''https://img.icons8.com/color/240/book-reading.png'',
      lesson_doc 3 ''Biology'' ''Golders Green'' 90 5 ''fa-solid fa-seedling''
        ''https://img.icons8.com/color/240/dna-helix.png'',
      lesson_doc 4 ''Chemistry'' ''Brent Cross'' 70 5 ''fa-solid fa-flask''
        ''https://img.icons8.com/color/240/test-tube.png'',
      lesson_doc 5 ''History'' ''Hendon'' 50 5 ''fa-solid fa-landmark''
        ''https://img.icons8.com/color/240/scroll.png'',
      lesson_doc 6 ''Physics'' ''Colindale'' 95 5 ''fa-solid fa-atom''
        ''https://img.icons8.com/color/240/physics.png'',
      lesson_doc 7 ''Art'' ''Brent Cross'' 60 5 ''fa-solid fa-palette''
        ''https://img.icons8.com/color/240/art-prices.png'',
      lesson_doc 8 ''Geography'' ''Golders Green'' 85 5 ''fa-solid fa-earth-europe''
        ''https://img.icons8.com/color/240/globe--v1.png'',
      lesson_doc 9 ''Computer Science'' ''Hendon'' 120 5 ''fa-solid fa-code''
        ''https://img.icons8.com/color/240/source-code.png'',
      lesson_doc 10 ''Economics'' ''Colindale'' 110 5 ''fa-solid fa-chart-line''
        ''https://img.icons8.com/color/240/economic-improvement.png'']"

text \<open>
  \<^verbatim>\<open>deleteMany({})\<close> and \<^verbatim>\<open>insertMany(docs)\<close> on the lessons collection; the driver
  gives each inserted document a fresh \<^verbatim>\<open>_id\<close>.
\<close>

definition deleteMany_lessons :: "store \<Rightarrow> store" where
  "deleteMany_lessons st = st\<lparr>lessons := []\<rparr>"

fun with_ids :: "nat \<Rightarrow> doc list \<Rightarrow> doc list" where
  "with_ids k [] = []"
| "with_ids k (d # ds) = ((''_id'', Oid k) # d) # with_ids (Suc k) ds"

definition insertMany_lessons :: "doc list \<Rightarrow> store \<Rightarrow> store" where
  "insertMany_lessons ds st =
     st\<lparr>lessons := lessons st @ with_ids (next_oid st) ds, next_oid := next_oid st + length ds\<rparr>"

text \<open>
  The environment of a run: the connection string \<^verbatim>\<open>process.env.MONGODB_URI\<close>
  (\<open>None\<close> when unset) and, for each driver call, whether it throws. The result is the
  exit status of the process and the store it leaves. \<^verbatim>\<open>process.exit(1)\<close> ends the
  process at once; otherwise \<^verbatim>\<open>seed()\<close> returns, after its \<^verbatim>\<open>catch\<close> block if a call
  threw, and the process ends with status 0. A call that throws writes nothing.
\<close>

record seed_env =
  uri :: "string option"
  connect_fails :: bool
  deleteMany_fails :: bool
  insertMany_fails :: bool

definition seed :: "seed_env \<Rightarrow> store \<Rightarrow> nat \<times> store" where
  "seed env st =
     (if uri env = None \<or> uri env = Some [] then (1, st)
      else if connect_fails env then (0, st)
      else if deleteMany_fails env then (0, st)
      else
        (let st1 = deleteMany_lessons st
         in if insertMany_fails env then (0, st1)
            else (0, insertMany_lessons seed_lessons st1)))"

section \<open>The search predicate of the specification\<close>

text \<open>
  What the specification says a search for a term returns: the lessons whose subject
  or location contains the term as a substring, letter case ignored, and, when the
  term is a number, those whose price or spaces equals it. As in the store's filters,
  a field holding an array counts when one of its elements does.
\<close>

definition contains_ci :: "string \<Rightarrow> json \<Rightarrow> bool" where
  "contains_ci t v =
     (case v of
        JStr s \<Rightarrow> sublist (toLowerCase t) (toLowerCase s)
      | JArr vs \<Rightarrow> (\<exists>x \<in> set vs. case x of JStr s \<Rightarrow> sublist (toLowerCase t) (toLowerCase s) | _ \<Rightarrow> False)
      | _ \<Rightarrow> False)"

definition search_spec :: "string \<Rightarrow> doc \<Rightarrow> bool" where
  "search_spec t d =
     (on_field (contains_ci t) ''subject'' d \<or> on_field (contains_ci t) ''location'' d
      \<or> (Number_js t \<noteq> NaN
          \<and> (on_field (num_equals (Number_js t)) ''price'' d
             \<or> on_field (num_equals (Number_js t)) ''spaces'' d)))"

section \<open>Example states\<close>

text \<open>A store right after seeding, and a short one with three lessons.\<close>

definition seeded :: store where
  "seeded = \<lparr>lessons = with_ids 0 seed_lessons, orders = [], next_oid = 10\<rparr>"

definition three_lessons :: store where
  "three_lessons = \<lparr>lessons = take 3 seed_lessons, orders = [], next_oid = 0\<rparr>"

definition empty_store :: store where
  "empty_store = \<lparr>lessons = [], orders = [], next_oid = 0\<rparr>"

section \<open>Order submission: properties\<close>

lemma test_digits_JStr: "test_digits (JStr s) = Returns (digits_only s)"
  by (simp add: test_digits_def)

lemma length_below_JStr: "length_below (JStr s) n = (length s < n)"
  by (simp add: length_below_def)

lemma length_below_JNum: "length_below (JNum r) n = False"
  by (simp add: length_below_def)

text \<open>No object passes the digits test, so \<open>js_length\<close> is never asked about one.\<close>

lemma test_digits_JObj: "test_digits (JObj kvs) \<noteq> Returns True"
  by (simp add: test_digits_def digits_only_def is_digit_def)

text \<open>
  C1. A payload with a non-empty name, a non-empty phone string of at least 8
  characters, all digits, and a non-empty items array, posted to \<^verbatim>\<open>/orders\<close> or to
  \<^verbatim>\<open>/order\<close> while the store accepts the insert, is answered with 201 and adds exactly
  one order document: its total is the supplied total when that is truthy and 0 when
  it is omitted or falsy, and its \<^verbatim>\<open>createdAt\<close> is the server's clock.
\<close>

theorem create_order_valid:
  assumes "get_prop body ''name'' = Some (JStr n)" "n \<noteq> []"
    and "get_prop body ''phone'' = Some (JStr p)" "p \<noteq> []" "\<forall>c \<in> set p. is_digit c" "8 \<le> length p"
    and "get_prop body ''items'' = Some (JArr xs)" "xs \<noteq> []"
    and "h = post_orders \<or> h = post_order"
  shows "h now False body st =
           (Sent \<lparr>status = 201,
                  payload = Object [(''message'', Json (JStr ''Order saved'')),
                                    (''orderId'', Oid (next_oid st))]\<rparr>,
            st\<lparr>orders := orders st @
                   [[(''_id'', Oid (next_oid st)), (''name'', Json (JStr n)), (''phone'', Json (JStr p)),
                     (''items'', Json (JArr xs)),
                     (''total'', Json (case get_prop body ''total'' of
                                         None \<Rightarrow> JNum 0
                                       | Some t \<Rightarrow> if truthy (Some t) then t else JNum 0)),
                     (''createdAt'', Date now)]],
               next_oid := Suc (next_oid st)\<rparr>)"
proof -
  have d: "digits_only p" using assms(4,5) by (simp add: digits_only_def)
  show ?thesis
    using assms(1,2,3,6,7,8,9) d
    by (auto simp: post_orders_def post_order_def handleCreateOrder_def test_digits_JStr
        length_below_JStr insertOne_orders_def or_zero_def)
qed

theorem create_order_valid_witness:
  "post_order 1700000000 False
     [(''name'', JStr ''Ada''), (''phone'', JStr ''0712345678''),
      (''items'', JArr [JObj [(''id'', JNum 1), (''quantity'', JNum 2)]]), (''total'', JNum 200)]
     empty_store =
   (Sent \<lparr>status = 201,
          payload = Object [(''message'', Json (JStr ''Order saved'')), (''orderId'', Oid 0)]\<rparr>,
    \<lparr>lessons = [],
     orders = [[(''_id'', Oid 0), (''name'', Json (JStr ''Ada'')), (''phone'', Json (JStr ''0712345678'')),
                (''items'', Json (JArr [JObj [(''id'', JNum 1), (''quantity'', JNum 2)]])),
                (''total'', Json (JNum 200)), (''createdAt'', Date 1700000000)]],
     next_oid = 1\<rparr>)"
  using create_order_valid [of
      "[(''name'', JStr ''Ada''), (''phone'', JStr ''0712345678''),
        (''items'', JArr [JObj [(''id'', JNum 1), (''quantity'', JNum 2)]]), (''total'', JNum 200)]"
      "''Ada''" "''0712345678''" "[JObj [(''id'', JNum 1), (''quantity'', JNum 2)]]" post_order
      1700000000 empty_store]
  by (simp add: get_prop_def is_digit_def empty_store_def)

lemma reject_missing:
  assumes "\<not> truthy (get_prop body ''name'') \<or> \<not> truthy (get_prop body ''phone'')
           \<or> \<not> isArray (get_prop body ''items'') \<or> array_length (get_prop body ''items'') = 0"
  shows "handleCreateOrder now fails body st = (error_response 400 ''Missing name, phone, or items.'', st)"
  using assms unfolding handleCreateOrder_def Let_def by (simp only: if_True)

lemma reject_phone_string:
  assumes "get_prop body ''phone'' = Some (JStr p)" "\<not> digits_only p \<or> length p < 8"
  shows "\<exists>msg. handleCreateOrder now fails body st = (error_response 400 msg, st)"
  using assms
  by (auto simp: handleCreateOrder_def Let_def test_digits_JStr length_below_JStr
      split: option.splits)

lemma not_array_cases:
  "\<not> (\<exists>xs. v = Some (JArr xs) \<and> xs \<noteq> []) \<Longrightarrow> \<not> isArray v \<or> array_length v = 0"
  by (cases v rule: isArray.cases) auto

lemma invalid_rejected:
  assumes "get_prop body ''name'' = None \<or> get_prop body ''name'' = Some (JStr [])
         \<or> get_prop body ''phone'' = None \<or> get_prop body ''phone'' = Some (JStr [])
         \<or> (\<exists>p. get_prop body ''phone'' = Some (JStr p) \<and> (\<exists>c \<in> set p. \<not> is_digit c))
         \<or> (\<exists>p. get_prop body ''phone'' = Some (JStr p) \<and> length p < 8)
         \<or> \<not> (\<exists>xs. get_prop body ''items'' = Some (JArr xs) \<and> xs \<noteq> [])"
  shows "\<exists>msg. handleCreateOrder now store_fails body st = (error_response 400 msg, st)"
proof -
  consider (falsy) "\<not> truthy (get_prop body ''name'') \<or> \<not> truthy (get_prop body ''phone'')"
    | (phone) p where "get_prop body ''phone'' = Some (JStr p)" "\<not> digits_only p \<or> length p < 8"
    | (items) "\<not> (\<exists>xs. get_prop body ''items'' = Some (JArr xs) \<and> xs \<noteq> [])"
    using assms by (auto simp: digits_only_def)
  then show ?thesis
  proof cases
    case falsy
    then have "handleCreateOrder now store_fails body st =
        (error_response 400 ''Missing name, phone, or items.'', st)"
      by (intro reject_missing) blast
    then show ?thesis ..
  next
    case phone
    then show ?thesis by (rule reject_phone_string)
  next
    case items
    then have "\<not> isArray (get_prop body ''items'') \<or> array_length (get_prop body ''items'') = 0"
      by (rule not_array_cases)
    then have "handleCreateOrder now store_fails body st =
        (error_response 400 ''Missing name, phone, or items.'', st)"
      by (intro reject_missing) blast
    then show ?thesis ..
  qed
qed

lemma resubmit_rejected:
  assumes "\<And>now store_fails. snd (h now store_fails body st) = st"
  shows "resubmit h body attempts st = st"
  using assms by (induction attempts) auto

text \<open>
  The rejections the handler does make, for a phone that is missing or a string: a
  payload with the name missing or empty, the phone missing or empty, a phone string
  with a character that is not a digit, a phone string shorter than 8 characters, or
  items that are not a non-empty array, is answered with 400 and the store is left as
  it was, whatever the clock and the state of the store connection; submitting it
  again, any number of times, leaves the store as it was.
\<close>

theorem create_order_invalid:
  assumes "get_prop body ''name'' = None \<or> get_prop body ''name'' = Some (JStr [])
         \<or> get_prop body ''phone'' = None \<or> get_prop body ''phone'' = Some (JStr [])
         \<or> (\<exists>p. get_prop body ''phone'' = Some (JStr p) \<and> (\<exists>c \<in> set p. \<not> is_digit c))
         \<or> (\<exists>p. get_prop body ''phone'' = Some (JStr p) \<and> length p < 8)
         \<or> \<not> (\<exists>xs. get_prop body ''items'' = Some (JArr xs) \<and> xs \<noteq> [])"
    and "h = post_orders \<or> h = post_order"
  shows "(\<exists>msg. h now store_fails body st = (error_response 400 msg, st))
       \<and> resubmit h body attempts st = st"
proof -
  have h: "h = handleCreateOrder"
    using assms(2) by (auto simp: post_orders_def post_order_def)
  have one: "\<exists>msg. h t f body st = (error_response 400 msg, st)" for t f
    unfolding h using assms(1) by (rule invalid_rejected)
  have "snd (h t f body st) = st" for t f
    using one[of t f] by auto
  then have "resubmit h body attempts st = st"
    by (rule resubmit_rejected)
  with one show ?thesis by blast
qed

theorem create_order_invalid_witness:
  "(\<exists>msg. post_orders 1700000000 False
            [(''name'', JStr ''Ada''), (''phone'', JStr ''07-1234-5678''), (''items'', JArr [JNum 1])]
            seeded = (error_response 400 msg, seeded))
   \<and> resubmit post_orders
        [(''name'', JStr ''Ada''), (''phone'', JStr ''07-1234-5678''), (''items'', JArr [JNum 1])]
        [(1700000001, False), (1700000002, True), (1700000003, False)] seeded = seeded"
  using create_order_invalid [of
      "[(''name'', JStr ''Ada''), (''phone'', JStr ''07-1234-5678''), (''items'', JArr [JNum 1])]"
      post_orders 1700000000 False seeded "[(1700000001, False), (1700000002, True), (1700000003, False)]"]
  by (simp add: get_prop_def is_digit_def)

text \<open>
  C2. The claim asks for a 400, with nothing stored, whenever the phone is shorter
  than 8 characters or is not made of digits, and the comment at the check says
  \<^verbatim>\<open>only digits + minimum length\<close>. The code applies the length rule through
  \<^verbatim>\<open>phone.length\<close>, which only a string (or an array) has: for the JSON number
  \<^verbatim>\<open>1234567\<close>, seven digits, \<^verbatim>\<open>phone.length\<close> is \<^verbatim>\<open>undefined\<close>, the comparison with 8 is
  false, and the order is answered with 201 and stored. A phone that is an object
  with an own entry \<^verbatim>\<open>toString\<close> makes the digits test throw, so no 400 is sent either.
\<close>

theorem create_order_short_numeric_phone:
  "post_orders 1700000000 False
     [(''name'', JStr ''Ada''), (''phone'', JNum 1234567), (''items'', JArr [JNum 1])] empty_store =
   (Sent \<lparr>status = 201,
          payload = Object [(''message'', Json (JStr ''Order saved'')), (''orderId'', Oid 0)]\<rparr>,
    \<lparr>lessons = [],
     orders = [[(''_id'', Oid 0), (''name'', Json (JStr ''Ada'')), (''phone'', Json (JNum 1234567)),
                (''items'', Json (JArr [JNum 1])), (''total'', Json (JNum 0)),
                (''createdAt'', Date 1700000000)]],
     next_oid = 1\<rparr>)
   \<and> post_orders 1700000000 False
     [(''name'', JStr ''Ada''), (''phone'', JObj [(''toString'', JNum 1)]), (''items'', JArr [JNum 1])]
     empty_store = (Escaped, empty_store)"
proof -
  have t: "test_digits (JNum 1234567) = Returns True"
    by (simp add: test_digits_def num_text_def digits_only_def is_digit_def)
  have a: "post_orders 1700000000 False
     [(''name'', JStr ''Ada''), (''phone'', JNum 1234567), (''items'', JArr [JNum 1])] empty_store =
   (Sent \<lparr>status = 201,
          payload = Object [(''message'', Json (JStr ''Order saved'')), (''orderId'', Oid 0)]\<rparr>,
    \<lparr>lessons = [],
     orders = [[(''_id'', Oid 0), (''name'', Json (JStr ''Ada'')), (''phone'', Json (JNum 1234567)),
                (''items'', Json (JArr [JNum 1])), (''total'', Json (JNum 0)),
                (''createdAt'', Date 1700000000)]],
     next_oid = 1\<rparr>)"
    by (simp add: post_orders_def handleCreateOrder_def get_prop_def t length_below_JNum
        insertOne_orders_def or_zero_def empty_store_def)
  have b: "post_orders 1700000000 False
     [(''name'', JStr ''Ada''), (''phone'', JObj [(''toString'', JNum 1)]), (''items'', JArr [JNum 1])]
     empty_store = (Escaped, empty_store)"
    by (simp add: post_orders_def handleCreateOrder_def get_prop_def test_digits_def)
  from a b show ?thesis by (rule conjI)
qed

text \<open>Every natural number below \<open>10^21\<close> is rendered as digits, so it passes the digits test.\<close>

lemma digit_char_is_digit: "k < 10 \<Longrightarrow> is_digit (''0123456789'' ! k)"
proof -
  assume "k < 10"
  then have "k \<in> {0, 1, 2, 3, 4, 5, 6, 7, 8, 9}" by auto
  then show ?thesis by (auto simp: is_digit_def)
qed

lemma show_nat_digits: "digits_only (show_nat n)"
proof (induction n rule: show_nat.induct)
  case (1 n)
  show ?case
  proof (cases "n < 10")
    case True
    then show ?thesis
      by (subst show_nat.simps) (simp add: digits_only_def digit_char_is_digit del: show_nat.simps)
  next
    case False
    have m: "is_digit (''0123456789'' ! (n mod 10))"
      by (rule digit_char_is_digit) simp
    have "digits_only (show_nat (n div 10))" using 1 False by (simp del: show_nat.simps)
    then show ?thesis using False m
      by (subst show_nat.simps) (simp add: digits_only_def del: show_nat.simps)
  qed
qed

lemma test_digits_nat:
  assumes "k < 10 ^ 21"
  shows "test_digits (JNum (of_nat k)) = Returns True"
proof -
  have "(of_nat k :: rat) < of_nat (10 ^ 21)" using assms by (simp only: of_nat_less_iff)
  then have b: "\<bar>of_nat k :: rat\<bar> < 10 ^ 21" by simp
  have f: "(of_nat k :: rat) = of_int \<lfloor>of_nat k :: rat\<rfloor>" by simp
  have "num_text (of_nat k) = Text (show_nat k)"
    using b f by (simp add: num_text_def del: show_nat.simps)
  then show ?thesis by (simp add: test_digits_def show_nat_digits del: show_nat.simps)
qed

text \<open>
  C10. When the phone of a payload is a JSON number, the length rule does not apply:
  if the number is truthy and its decimal rendering passes the digits-only pattern,
  then, with a truthy name, a non-empty items array and a store that accepts the
  insert, the order is accepted with 201 and stored with that number as its phone,
  however few digits the number has.
\<close>

theorem numeric_phone_accepted:
  assumes "truthy (get_prop body ''name'')"
    and "get_prop body ''items'' = Some (JArr xs)" "xs \<noteq> []"
    and "get_prop body ''phone'' = Some (JNum r)" "r \<noteq> 0"
    and "test_digits (JNum r) = Returns True"
  shows "\<exists>d. handleCreateOrder now False body st =
           (Sent \<lparr>status = 201,
                  payload = Object [(''message'', Json (JStr ''Order saved'')),
                                    (''orderId'', Oid (next_oid st))]\<rparr>,
            st\<lparr>orders := orders st @ [d], next_oid := Suc (next_oid st)\<rparr>)
          \<and> field d ''phone'' = Some (Json (JNum r))"
  using assms
  by (auto simp: handleCreateOrder_def Let_def length_below_JNum insertOne_orders_def field_def
      split: option.splits)

theorem numeric_phone_accepted_witness:
  "test_digits (JNum 123) = Returns True
   \<and> (\<exists>d. handleCreateOrder 1700000000 False
            [(''name'', JStr ''Ada''), (''phone'', JNum 123), (''items'', JArr [JNum 1])] empty_store =
           (Sent \<lparr>status = 201,
                  payload = Object [(''message'', Json (JStr ''Order saved'')), (''orderId'', Oid 0)]\<rparr>,
            \<lparr>lessons = [], orders = [d], next_oid = 1\<rparr>)
          \<and> field d ''phone'' = Some (Json (JNum 123)))"
proof -
  have t: "test_digits (JNum 123) = Returns True"
    by (simp add: test_digits_def num_text_def digits_only_def is_digit_def)
  from numeric_phone_accepted [of
      "[(''name'', JStr ''Ada''), (''phone'', JNum 123), (''items'', JArr [JNum 1])]"
      "[JNum 1]" 123 1700000000 empty_store, OF _ _ _ _ _ t]
  show ?thesis using t by (simp add: get_prop_def empty_store_def)
qed

section \<open>Lesson update: properties\<close>

lemma digit_not_space: "is_digit c \<Longrightarrow> \<not> is_space c"
  by (auto simp: is_digit_def is_space_def)

lemma digit_not_sign: "is_digit c \<Longrightarrow> c \<noteq> CHR ''-'' \<and> c \<noteq> CHR ''+''"
  by (auto simp: is_digit_def)

lemma parseInt10_digit_prefix:
  assumes "ds \<noteq> []" "\<forall>c \<in> set ds. is_digit c" "rest = [] \<or> \<not> is_digit (hd rest)"
  shows "parseInt10 (ds @ rest) = Some (int (digits_value 10 ds))"
proof -
  obtain d ds' where ds: "ds = d # ds'" using assms(1) by (cases ds) auto
  have d: "is_digit d" using assms(2) ds by simp
  have 1: "dropWhile is_space (ds @ rest) = ds @ rest"
    using d ds digit_not_space by simp
  have 2: "split_sign (ds @ rest) = (False, ds @ rest)"
    using d ds digit_not_sign by (simp add: split_sign_def)
  have 3: "takeWhile is_digit (ds @ rest) = ds"
    using assms(2,3) by (cases rest) (simp_all add: takeWhile_append2)
  show ?thesis using 1 2 3 assms(1) by (simp add: parseInt10_def)
qed

lemma field_set_field: "field (set_field k v d) k' = (if k' = k then Some v else field d k')"
  by (induction d) (auto simp: field_def)

lemma set_fields_snoc: "set_fields (patch @ [(k, v)]) d = set_field k (Json v) (set_fields patch d)"
  by (simp add: set_fields_def)

lemma field_set_fields:
  "field (set_fields patch d) k = (case get_prop patch k of None \<Rightarrow> field d k | Some v \<Rightarrow> Some (Json v))"
proof (induction patch rule: rev_induct)
  case Nil
  then show ?case by (simp add: set_fields_def get_prop_def)
next
  case (snoc kv patch)
  obtain k' v' where kv: "kv = (k', v')" by (cases kv)
  show ?case using snoc
    by (simp add: kv set_fields_snoc field_set_field get_prop_def)
qed

lemma get_prop_None_iff: "get_prop patch k = None \<longleftrightarrow> k \<notin> fst ` set patch"
  by (simp add: get_prop_def map_of_eq_None_iff)

lemma updateOne_none: "\<forall>d \<in> set ls. \<not> f d \<Longrightarrow> updateOne f u ls = (0, ls)"
  by (induction ls) auto

lemma updateOne_first:
  "i < length ls \<Longrightarrow> f (ls ! i) \<Longrightarrow> \<forall>j < i. \<not> f (ls ! j) \<Longrightarrow> updateOne f u ls = (1, ls[i := u (ls ! i)])"
proof (induction ls arbitrary: i)
  case Nil
  then show ?case by simp
next
  case (Cons d ls)
  show ?case
  proof (cases i)
    case 0
    then show ?thesis using Cons.prems by simp
  next
    case (Suc i')
    have nd: "\<not> f d" using Cons.prems(3) Suc by auto
    have "updateOne f u ls = (1, ls[i' := u (ls ! i')])"
      using Cons.prems Suc by (intro Cons.IH) auto
    then show ?thesis using nd Suc by simp
  qed
qed

lemma updateOne_cases:
  "updateOne f u ls = (0, ls) \<and> (\<forall>d \<in> set ls. \<not> f d)
   \<or> (\<exists>i < length ls. f (ls ! i) \<and> (\<forall>j < i. \<not> f (ls ! j)) \<and> updateOne f u ls = (1, ls[i := u (ls ! i)]))"
proof (cases "\<exists>d \<in> set ls. f d")
  case False
  then show ?thesis using updateOne_none[of ls f u] by simp
next
  case True
  then obtain n where n: "n < length ls" "f (ls ! n)" by (auto simp: in_set_conv_nth)
  define i where "i = (LEAST n. n < length ls \<and> f (ls ! n))"
  have i: "i < length ls \<and> f (ls ! i)" unfolding i_def using n by (metis (mono_tags, lifting) LeastI)
  have least: "\<forall>j < i. \<not> f (ls ! j)"
  proof (intro allI impI notI)
    fix j assume "j < i" "f (ls ! j)"
    then have "j < length ls \<and> f (ls ! j)" using i by simp
    then have "i \<le> j" unfolding i_def by (rule Least_le)
    with \<open>j < i\<close> show False by simp
  qed
  show ?thesis using i least updateOne_first[of i ls f u] by blast
qed

text \<open>
  C9. When the id segment is one or more decimal digits followed by something that
  does not start with a digit (as in \<^verbatim>\<open>3abc\<close>), the request is treated exactly as the
  request whose id segment is the digits alone: same response, same resulting store,
  and the response is never 400.
\<close>

theorem put_lesson_digit_prefix:
  assumes "ds \<noteq> []" "\<forall>c \<in> set ds. is_digit c" "rest \<noteq> []" "\<not> is_digit (hd rest)"
  shows "put_lesson store_fails (ds @ rest) body st = put_lesson store_fails ds body st
       \<and> (\<forall>r. fst (put_lesson store_fails (ds @ rest) body st) = Sent r \<longrightarrow> status r \<noteq> 400)"
proof -
  have a: "parseInt10 (ds @ rest) = Some (int (digits_value 10 ds))"
    using assms by (intro parseInt10_digit_prefix) auto
  have b: "parseInt10 ds = Some (int (digits_value 10 ds))"
    using parseInt10_digit_prefix[of ds "[]"] assms by simp
  have "put_lesson store_fails (ds @ rest) body st = put_lesson store_fails ds body st"
    by (simp add: put_lesson_def a b)
  moreover have "\<forall>r. fst (put_lesson store_fails (ds @ rest) body st) = Sent r \<longrightarrow> status r \<noteq> 400"
    by (auto simp: put_lesson_def a Let_def error_response_def split: prod.splits if_splits)
  ultimately show ?thesis by blast
qed

theorem put_lesson_digit_prefix_witness:
  "put_lesson False ''3abc'' [(''spaces'', JNum 3)] three_lessons
     = put_lesson False ''3'' [(''spaces'', JNum 3)] three_lessons
   \<and> (\<exists>r. fst (put_lesson False ''3abc'' [(''spaces'', JNum 3)] three_lessons) = Sent r \<and> status r = 200)
   \<and> field (lessons (snd (put_lesson False ''3abc'' [(''spaces'', JNum 3)] three_lessons)) ! 2) ''spaces''
       = Some (Json (JNum 3))"
proof -
  have e: "put_lesson False (''3'' @ ''abc'') [(''spaces'', JNum 3)] three_lessons
         = put_lesson False ''3'' [(''spaces'', JNum 3)] three_lessons"
    using put_lesson_digit_prefix [of "''3''" "''abc''" False "[(''spaces'', JNum 3)]" three_lessons]
    by (simp add: is_digit_def)
  have v: "put_lesson False ''3'' [(''spaces'', JNum 3)] three_lessons =
      (Sent \<lparr>status = 200, payload = Object [(''message'', Json (JStr ''Lesson updated''))]\<rparr>,
       three_lessons\<lparr>lessons := (take 3 seed_lessons)[2 := set_fields [(''spaces'', JNum 3)] (seed_lessons ! 2)]\<rparr>)"
    by (simp add: put_lesson_def parseInt10_def split_sign_def is_space_def is_digit_def
        digits_value_def digit_of_def three_lessons_def seed_lessons_def lesson_doc_def
        has_id_def on_field_def field_def num_equals_def)
  show ?thesis using e v
    by (simp add: field_set_fields get_prop_def three_lessons_def seed_lessons_def)
qed

text \<open>
  C4. \<^verbatim>\<open>PUT /lessons/:id\<close>: when the id segment does not parse as an integer the
  answer is 400 and the store is untouched, whatever the state of the store
  connection. When it parses to \<open>n\<close> and the store answers: if no lesson has id \<open>n\<close>
  the answer is 404 and the store is unchanged; if exactly one lesson, at position
  \<open>i\<close>, has id \<open>n\<close>, the answer is 200 with the message alone (no document), and a
  following \<^verbatim>\<open>GET /lessons\<close> shows the same list with the lesson at \<open>i\<close> replaced by a
  document that has every field of the patch at the patch's value.
\<close>

theorem put_lesson_responses:
  "(parseInt10 idParam = None \<longrightarrow>
      put_lesson store_fails idParam body st = (error_response 400 ''Lesson id must be a number'', st))
   \<and> (parseInt10 idParam = Some n \<and> (\<forall>d \<in> set (lessons st). \<not> has_id n d) \<longrightarrow>
      put_lesson False idParam body st = (error_response 404 ''Lesson not found'', st))
   \<and> (parseInt10 idParam = Some n \<and> i < length (lessons st) \<and> has_id n (lessons st ! i)
        \<and> (\<forall>j < length (lessons st). j \<noteq> i \<longrightarrow> \<not> has_id n (lessons st ! j)) \<longrightarrow>
      (\<exists>d'. put_lesson False idParam body st =
               (Sent \<lparr>status = 200, payload = Object [(''message'', Json (JStr ''Lesson updated''))]\<rparr>,
                st\<lparr>lessons := (lessons st)[i := d']\<rparr>)
           \<and> get_lessons False (snd (put_lesson False idParam body st)) = ok_docs ((lessons st)[i := d'])
           \<and> (\<forall>k v. get_prop body k = Some v \<longrightarrow> field d' k = Some (Json v))))"
proof (intro conjI impI)
  assume "parseInt10 idParam = None"
  then show "put_lesson store_fails idParam body st = (error_response 400 ''Lesson id must be a number'', st)"
    by (simp add: put_lesson_def)
next
  assume "parseInt10 idParam = Some n \<and> (\<forall>d \<in> set (lessons st). \<not> has_id n d)"
  then show "put_lesson False idParam body st = (error_response 404 ''Lesson not found'', st)"
    by (auto simp: put_lesson_def updateOne_none)
next
  assume a: "parseInt10 idParam = Some n \<and> i < length (lessons st) \<and> has_id n (lessons st ! i)
        \<and> (\<forall>j < length (lessons st). j \<noteq> i \<longrightarrow> \<not> has_id n (lessons st ! j))"
  let ?d = "set_fields body (lessons st ! i)"
  have u: "updateOne (has_id n) (set_fields body) (lessons st) = (1, (lessons st)[i := ?d])"
    using a by (intro updateOne_first) auto
  have p: "put_lesson False idParam body st =
             (Sent \<lparr>status = 200, payload = Object [(''message'', Json (JStr ''Lesson updated''))]\<rparr>,
              st\<lparr>lessons := (lessons st)[i := ?d]\<rparr>)"
    using a u by (simp add: put_lesson_def)
  have g: "get_lessons False (snd (put_lesson False idParam body st)) = ok_docs ((lessons st)[i := ?d])"
    by (simp add: p get_lessons_def find_all_def)
  have f: "\<forall>k v. get_prop body k = Some v \<longrightarrow> field ?d k = Some (Json v)"
    by (simp add: field_set_fields)
  from p g f
  show "\<exists>d'. put_lesson False idParam body st =
               (Sent \<lparr>status = 200, payload = Object [(''message'', Json (JStr ''Lesson updated''))]\<rparr>,
                st\<lparr>lessons := (lessons st)[i := d']\<rparr>)
           \<and> get_lessons False (snd (put_lesson False idParam body st)) = ok_docs ((lessons st)[i := d'])
           \<and> (\<forall>k v. get_prop body k = Some v \<longrightarrow> field d' k = Some (Json v))"
    by blast
qed

lemma parseInt10_abc: "parseInt10 ''abc'' = None"
  by (simp add: parseInt10_def split_sign_def is_space_def is_digit_def)

lemma parseInt10_42: "parseInt10 ''42'' = Some 42"
  by (simp add: parseInt10_def split_sign_def is_space_def is_digit_def digits_value_def digit_of_def)

lemma parseInt10_2: "parseInt10 ''2'' = Some 2"
  by (simp add: parseInt10_def split_sign_def is_space_def is_digit_def digits_value_def digit_of_def)

lemma has_id_lesson_doc: "has_id n (lesson_doc i s l p sp ic im) = (n = i)"
  by (simp add: has_id_def on_field_def field_def lesson_doc_def num_equals_def)

lemma three_lessons_simps:
  "lessons three_lessons =
     [lesson_doc 1 ''Mathematics'' ''Hendon'' 100 5 ''fa-solid fa-calculator''
        ''https://img.icons8.com/color/240/calculator--v1.png'',
      lesson_doc 2 ''English'' ''Colindale'' 80 5 ''fa-solid fa-book-open''
        ''https://img.icons8.com/color/240/book-reading.png'',
      lesson_doc 3 ''Biology'' ''Golders Green'' 90 5 ''fa-solid fa-seedling''
        ''https://img.icons8.com/color/240/dna-helix.png'']"
  by (simp add: three_lessons_def seed_lessons_def)

theorem put_lesson_responses_witness:
  "put_lesson True ''abc'' [(''spaces'', JNum 3)] three_lessons
     = (error_response 400 ''Lesson id must be a number'', three_lessons)
   \<and> put_lesson False ''42'' [(''spaces'', JNum 3)] three_lessons
     = (error_response 404 ''Lesson not found'', three_lessons)
   \<and> (\<exists>d'. put_lesson False ''2'' [(''spaces'', JNum 3)] three_lessons =
             (Sent \<lparr>status = 200, payload = Object [(''message'', Json (JStr ''Lesson updated''))]\<rparr>,
              three_lessons\<lparr>lessons := (lessons three_lessons)[1 := d']\<rparr>)
          \<and> get_lessons False (snd (put_lesson False ''2'' [(''spaces'', JNum 3)] three_lessons))
              = ok_docs ((lessons three_lessons)[1 := d'])
          \<and> field d' ''spaces'' = Some (Json (JNum 3)))"
proof -
  have a: "put_lesson True ''abc'' [(''spaces'', JNum 3)] three_lessons
     = (error_response 400 ''Lesson id must be a number'', three_lessons)"
    using put_lesson_responses [of "''abc''" True "[(''spaces'', JNum 3)]" three_lessons 0 0]
    by (simp add: parseInt10_abc)
  have b: "put_lesson False ''42'' [(''spaces'', JNum 3)] three_lessons
     = (error_response 404 ''Lesson not found'', three_lessons)"
    using put_lesson_responses [of "''42''" False "[(''spaces'', JNum 3)]" three_lessons 42 0]
    by (simp add: parseInt10_42 three_lessons_simps has_id_lesson_doc)
  have pre: "\<forall>j < length (lessons three_lessons). j \<noteq> 1 \<longrightarrow> \<not> has_id 2 (lessons three_lessons ! j)"
    by (simp add: three_lessons_simps has_id_lesson_doc nth_Cons split: nat.splits)
  have "\<exists>d'. put_lesson False ''2'' [(''spaces'', JNum 3)] three_lessons =
             (Sent \<lparr>status = 200, payload = Object [(''message'', Json (JStr ''Lesson updated''))]\<rparr>,
              three_lessons\<lparr>lessons := (lessons three_lessons)[1 := d']\<rparr>)
          \<and> get_lessons False (snd (put_lesson False ''2'' [(''spaces'', JNum 3)] three_lessons))
              = ok_docs ((lessons three_lessons)[1 := d'])
          \<and> (\<forall>k v. get_prop [(''spaces'', JNum 3)] k = Some v \<longrightarrow> field d' k = Some (Json v))"
    using put_lesson_responses [of "''2''" False "[(''spaces'', JNum 3)]" three_lessons 2 1] pre
    by (simp add: parseInt10_2 three_lessons_simps has_id_lesson_doc)
  then have c: "\<exists>d'. put_lesson False ''2'' [(''spaces'', JNum 3)] three_lessons =
             (Sent \<lparr>status = 200, payload = Object [(''message'', Json (JStr ''Lesson updated''))]\<rparr>,
              three_lessons\<lparr>lessons := (lessons three_lessons)[1 := d']\<rparr>)
          \<and> get_lessons False (snd (put_lesson False ''2'' [(''spaces'', JNum 3)] three_lessons))
              = ok_docs ((lessons three_lessons)[1 := d'])
          \<and> field d' ''spaces'' = Some (Json (JNum 3))"
    by (auto simp: get_prop_def)
  from a b c show ?thesis by blast
qed

text \<open>
  C7. The update \<^verbatim>\<open>updateOne({ id: n }, { $set: patch })\<close>, on any collection, for any
  integer \<open>n\<close> and any patch: the collection keeps its length; every document whose id
  is not \<open>n\<close> is unchanged; at most one document changes; and no document loses or
  changes a field that the patch does not name.
\<close>

theorem update_frame:
  "length (snd (updateOne (has_id n) (set_fields patch) ls)) = length ls
   \<and> (\<forall>j < length ls. \<not> has_id n (ls ! j) \<longrightarrow> snd (updateOne (has_id n) (set_fields patch) ls) ! j = ls ! j)
   \<and> (\<forall>i < length ls. \<forall>j < length ls.
         snd (updateOne (has_id n) (set_fields patch) ls) ! i \<noteq> ls ! i
         \<and> snd (updateOne (has_id n) (set_fields patch) ls) ! j \<noteq> ls ! j \<longrightarrow> i = j)
   \<and> (\<forall>j < length ls. \<forall>k. k \<notin> fst ` set patch \<longrightarrow>
         field (snd (updateOne (has_id n) (set_fields patch) ls) ! j) k = field (ls ! j) k)"
proof -
  let ?ls' = "snd (updateOne (has_id n) (set_fields patch) ls)"
  from updateOne_cases[of "has_id n" "set_fields patch" ls]
  consider (none) "?ls' = ls"
    | (one) i where "i < length ls" "has_id n (ls ! i)" "?ls' = ls[i := set_fields patch (ls ! i)]"
    by auto
  note cases = this
  have 1: "length ?ls' = length ls" by (cases rule: cases) auto
  have 2: "\<forall>j < length ls. \<not> has_id n (ls ! j) \<longrightarrow> ?ls' ! j = ls ! j"
    by (cases rule: cases) (auto simp: nth_list_update)
  have 3: "\<forall>i < length ls. \<forall>j < length ls. ?ls' ! i \<noteq> ls ! i \<and> ?ls' ! j \<noteq> ls ! j \<longrightarrow> i = j"
    by (cases rule: cases) (auto simp: nth_list_update split: if_splits)
  have 4: "\<forall>j < length ls. \<forall>k. k \<notin> fst ` set patch \<longrightarrow> field (?ls' ! j) k = field (ls ! j) k"
    by (cases rule: cases) (auto simp: nth_list_update field_set_fields get_prop_None_iff[symmetric])
  from 1 2 3 4 show ?thesis by blast
qed

theorem update_frame_witness:
  "snd (updateOne (has_id 2) (set_fields [(''spaces'', JNum 3)]) (lessons three_lessons)) ! 0
     = lessons three_lessons ! 0
   \<and> snd (updateOne (has_id 2) (set_fields [(''spaces'', JNum 3)]) (lessons three_lessons)) ! 2
     = lessons three_lessons ! 2
   \<and> field (snd (updateOne (has_id 2) (set_fields [(''spaces'', JNum 3)]) (lessons three_lessons)) ! 1) ''price''
     = Some (Json (JNum 80))
   \<and> field (snd (updateOne (has_id 2) (set_fields [(''spaces'', JNum 3)]) (lessons three_lessons)) ! 1) ''spaces''
     = Some (Json (JNum 3))"
proof -
  note f = update_frame [of 2 "[(''spaces'', JNum 3)]" "lessons three_lessons"]
  have l: "length (lessons three_lessons) = 3" by (simp add: three_lessons_simps)
  have a: "snd (updateOne (has_id 2) (set_fields [(''spaces'', JNum 3)]) (lessons three_lessons)) ! 0
     = lessons three_lessons ! 0"
    using f l by (simp add: three_lessons_simps has_id_lesson_doc)
  have b: "snd (updateOne (has_id 2) (set_fields [(''spaces'', JNum 3)]) (lessons three_lessons)) ! 2
     = lessons three_lessons ! 2"
    using f l by (simp add: three_lessons_simps has_id_lesson_doc)
  have "field (snd (updateOne (has_id 2) (set_fields [(''spaces'', JNum 3)]) (lessons three_lessons)) ! 1) ''price''
     = field (lessons three_lessons ! 1) ''price''"
    using f l by simp
  then have c: "field (snd (updateOne (has_id 2) (set_fields [(''spaces'', JNum 3)]) (lessons three_lessons)) ! 1) ''price''
     = Some (Json (JNum 80))"
    by (simp add: three_lessons_simps lesson_doc_def field_def)
  have d: "field (snd (updateOne (has_id 2) (set_fields [(''spaces'', JNum 3)]) (lessons three_lessons)) ! 1) ''spaces''
     = Some (Json (JNum 3))"
    by (simp add: three_lessons_simps has_id_lesson_doc field_set_fields get_prop_def)
  from a b c d show ?thesis by blast
qed

section \<open>Search: properties\<close>

lemma trim_empty_iff: "trim s = [] \<longleftrightarrow> (\<forall>c \<in> set s. is_space c)"
proof -
  have "trim s = [] \<longleftrightarrow> (\<forall>c \<in> set (dropWhile is_space s). is_space c)"
    by (simp add: trim_def dropWhile_eq_Nil_conv)
  also have "\<dots> \<longleftrightarrow> dropWhile is_space s = []"
  proof
    assume a: "\<forall>c \<in> set (dropWhile is_space s). is_space c"
    show "dropWhile is_space s = []"
    proof (rule ccontr)
      assume n: "dropWhile is_space s \<noteq> []"
      then have "\<not> is_space (hd (dropWhile is_space s))" by (rule hd_dropWhile)
      moreover have "hd (dropWhile is_space s) \<in> set (dropWhile is_space s)" using n by (rule hd_in_set)
      ultimately show False using a by blast
    qed
  next
    assume "dropWhile is_space s = []"
    then show "\<forall>c \<in> set (dropWhile is_space s). is_space c" by (auto dest: set_dropWhileD)
  qed
  also have "\<dots> \<longleftrightarrow> (\<forall>c \<in> set s. is_space c)"
    by (simp add: dropWhile_eq_Nil_conv)
  finally show ?thesis .
qed

text \<open>
  C6. When the parameter \<^verbatim>\<open>q\<close> is absent, empty or made of white space only, and the
  store answers, \<^verbatim>\<open>GET /search\<close> sends what \<^verbatim>\<open>GET /lessons\<close> sends on the same store:
  status 200 with all lessons, so the two hold the same set of lessons.
\<close>

theorem search_blank_is_lessons:
  assumes "q = None \<or> (\<exists>s. q = Some s \<and> (\<forall>c \<in> set s. is_space c))"
  shows "get_search False q st = Some (get_lessons False st)
       \<and> (\<exists>found listed. get_search False q st = Some (ok_docs found)
            \<and> get_lessons False st = ok_docs listed \<and> set found = set listed)"
proof -
  have "trim (case q of None \<Rightarrow> [] | Some s \<Rightarrow> s) = []"
    using assms by (auto simp: trim_empty_iff)
  then have e: "get_search False q st = Some (ok_docs (lessons st))"
    by (simp add: get_search_def find_all_def)
  have l: "get_lessons False st = ok_docs (lessons st)"
    by (simp add: get_lessons_def find_all_def)
  from e l show ?thesis by auto
qed

theorem search_blank_is_lessons_witness:
  "get_search False (Some ''   '') seeded = Some (get_lessons False seeded)
   \<and> get_search False None seeded = Some (get_lessons False seeded)
   \<and> get_lessons False seeded = ok_docs (lessons seeded)"
  using search_blank_is_lessons [of "Some ''   ''" seeded] search_blank_is_lessons [of None seeded]
  by (simp add: is_space_def get_lessons_def find_all_def)

lemma to_lower_idem: "to_lower (to_lower c) = to_lower c"
  by (simp add: to_lower_def split: option.splits)

lemma to_lower_meta: "c \<notin> rx_special \<Longrightarrow> to_lower c \<notin> rx_special"
  by (auto simp: to_lower_def rx_special_def split: option.splits if_splits)

lemma dot_meta: "CHR ''.'' \<in> rx_special"
  by (simp add: rx_special_def)

lemma compile_plain:
  assumes "\<forall>c \<in> set t. c \<notin> rx_special"
  shows "compile_regex (toLowerCase t) = Some (map Lit (toLowerCase t))"
proof -
  have "\<forall>c \<in> set (toLowerCase t). c \<notin> rx_special"
    using assms to_lower_meta by (auto simp: toLowerCase_def)
  moreover from this have "\<forall>c \<in> set (toLowerCase t). c \<noteq> CHR ''.''"
    using dot_meta by auto
  ultimately show ?thesis by (simp add: compile_regex_def)
qed

lemma matches_at_literal:
  "matches_at (map Lit (toLowerCase t)) s = prefix (toLowerCase t) (toLowerCase s)"
proof (induction t arbitrary: s)
  case Nil
  then show ?case by (simp add: toLowerCase_def)
next
  case (Cons a t)
  then show ?case
    by (cases s) (auto simp: toLowerCase_def to_lower_idem)
qed

lemma regex_search_literal:
  "regex_search (map Lit (toLowerCase t)) s = sublist (toLowerCase t) (toLowerCase s)"
proof (induction s)
  case Nil
  show ?case using matches_at_literal[of t "[]"] by (simp add: toLowerCase_def)
next
  case (Cons c s)
  have "regex_search (map Lit (toLowerCase t)) (c # s)
        = (prefix (toLowerCase t) (toLowerCase (c # s)) \<or> sublist (toLowerCase t) (toLowerCase s))"
    using Cons matches_at_literal[of t "c # s"] by simp
  then show ?case by (simp add: toLowerCase_def sublist_Cons_right)
qed

lemma text_matches_literal:
  "text_matches (map Lit (toLowerCase t)) v = contains_ci t v"
  by (simp add: text_matches_def contains_ci_def regex_search_literal cong: json.case_cong split: json.splits)

lemma search_literal:
  assumes "trim q \<noteq> []" "\<forall>c \<in> set (trim q). c \<notin> rx_special"
  shows "get_search False (Some q) st = Some (ok_docs (filter (search_spec (trim q)) (lessons st)))"
proof -
  let ?t = "trim q"
  have c: "compile_regex (toLowerCase ?t) = Some (map Lit (toLowerCase ?t))"
    using assms(2) by (rule compile_plain)
  have m: "on_field (text_matches (map Lit (toLowerCase ?t))) k d = on_field (contains_ci ?t) k d" for k d
    by (simp add: on_field_def text_matches_literal cong: option.case_cong bson.case_cong)
  show ?thesis
  proof (cases "Number_js ?t = NaN")
    case True
    then show ?thesis using assms(1)
      by (simp add: get_search_def Let_def find_or_def c m search_spec_def[abs_def])
  next
    case False
    then show ?thesis using assms(1)
      by (simp add: get_search_def Let_def find_or_def c m search_spec_def[abs_def] disj_ac)
  qed
qed

lemma seeded_lessons:
  "lessons seeded =
     [(''_id'', Oid 0) # lesson_doc 1 ''Mathematics'' ''Hendon'' 100 5 ''fa-solid fa-calculator''
        ''https://img.icons8.com/color/240/calculator--v1.png'',
      (''_id'', Oid 1) # lesson_doc 2 ''English'' ''Colindale'' 80 5 ''fa-solid fa-book-open''
        ''https://img.icons8.com/color/240/book-reading.png'',
      (''_id'', Oid 2) # lesson_doc 3 ''Biology'' ''Golders Green'' 90 5 ''fa-solid fa-seedling''
        ''https://img.icons8.com/color/240/dna-helix.png'',
      (''_id'', Oid 3) # lesson_doc 4 ''Chemistry'' ''Brent Cross'' 70 5 ''fa-solid fa-flask''
        ''https://img.icons8.com/color/240/test-tube.png'',
      (''_id'', Oid 4) # lesson_doc 5 ''History'' ''Hendon'' 50 5 ''fa-solid fa-landmark''
        ''https://img.icons8.com/color/240/scroll.png'',
      (''_id'', Oid 5) # lesson_doc 6 ''Physics'' ''Colindale'' 95 5 ''fa-solid fa-atom''
        ''https://img.icons8.com/color/240/physics.png'',
      (''_id'', Oid 6) # lesson_doc 7 ''Art'' ''Brent Cross'' 60 5 ''fa-solid fa-palette''
        ''https://img.icons8.com/color/240/art-prices.png'',
      (''_id'', Oid 7) # lesson_doc 8 ''Geography'' ''Golders Green'' 85 5 ''fa-solid fa-earth-europe''
        ''https://img.icons8.com/color/240/globe--v1.png'',
      (''_id'', Oid 8) # lesson_doc 9 ''Computer Science'' ''Hendon'' 120 5 ''fa-solid fa-code''
        ''https://img.icons8.com/color/240/source-code.png'',
      (''_id'', Oid 9) # lesson_doc 10 ''Economics'' ''Colindale'' 110 5 ''fa-solid fa-chart-line''
        ''https://img.icons8.com/color/240/economic-improvement.png'']"
  by (simp add: seeded_def seed_lessons_def eval_nat_numeral)

text \<open>How a stored lesson answers the two kinds of clause and the specification's test.\<close>

lemma lesson_text_field:
  "on_field P ''subject'' ((''_id'', Oid k) # lesson_doc i s l p sp ic im) = P (JStr s)"
  "on_field P ''location'' ((''_id'', Oid k) # lesson_doc i s l p sp ic im) = P (JStr l)"
  by (simp_all add: on_field_def field_def lesson_doc_def)

lemma lesson_num_field:
  "on_field P ''price'' ((''_id'', Oid k) # lesson_doc i s l p sp ic im) = P (JNum (of_int p))"
  "on_field P ''spaces'' ((''_id'', Oid k) # lesson_doc i s l p sp ic im) = P (JNum (of_int sp))"
  by (simp_all add: on_field_def field_def lesson_doc_def)

lemma Number_js_dot: "Number_js ''.'' = NaN"
  by (simp add: Number_js_def trim_def is_space_def non_decimal_def str_decimal_def split_sign_def
      unsigned_decimal_def is_digit_def)

lemma search_dot_all: "get_search False (Some ''.'') seeded = Some (ok_docs (lessons seeded))"
  by (simp add: get_search_def Let_def trim_def is_space_def toLowerCase_def to_lower_def Number_js_dot
      find_or_def compile_regex_def rx_special_def seeded_lessons lesson_text_field text_matches_def)

lemma spec_dot_none: "filter (search_spec ''.'') (lessons seeded) = []"
  by (simp add: search_spec_def Number_js_dot seeded_lessons lesson_text_field contains_ci_def
      toLowerCase_def to_lower_def sublist_code)

text \<open>
  C3, as stated, fails: the term is handed to the store as a regular expression, not
  as a literal. The term \<^verbatim>\<open>.\<close> is not empty after trimming and is not a number; no
  subject or location of the seeded lessons contains a full stop, yet the search
  returns all ten lessons, because the pattern \<^verbatim>\<open>.\<close> matches any character.
\<close>

theorem search_regex_counterexample:
  "trim ''.'' \<noteq> []
   \<and> get_search False (Some ''.'') seeded = Some (ok_docs (lessons seeded))
   \<and> length (lessons seeded) = 10
   \<and> filter (search_spec (trim ''.'')) (lessons seeded) = []
   \<and> get_search False (Some ''.'') seeded
       \<noteq> Some (ok_docs (filter (search_spec (trim ''.'')) (lessons seeded)))"
proof -
  have t: "trim ''.'' = ''.''" by (simp add: trim_def is_space_def)
  have l: "length (lessons seeded) = 10" by (simp add: seeded_lessons)
  then have n: "lessons seeded \<noteq> []" by auto
  show ?thesis using t l n search_dot_all spec_dot_none
    by (simp add: ok_docs_def)
qed

text \<open>
  C3, amended. For every query term that is non-empty after trimming and holds no
  regular-expression metacharacter (backslash, \<^verbatim>\<open>^ $ . | ? * + ( ) [ ] { }\<close>) and no NUL, and with
  the store answering, \<^verbatim>\<open>GET /search\<close> returns exactly the lessons that satisfy the
  disjunction: subject contains the term as a case-insensitive substring, or location
  does, or, only when the trimmed term parses fully as a number \<open>N\<close>, price equals \<open>N\<close>
  or spaces equals \<open>N\<close>. A term that merely starts with a number parses to \<^verbatim>\<open>NaN\<close> and
  contributes no numeric branch.
\<close>

theorem search_plain_term:
  assumes "trim q \<noteq> []" "\<forall>c \<in> set (trim q). c \<notin> rx_special"
  shows "get_search False (Some q) st = Some (ok_docs (filter (search_spec (trim q)) (lessons st)))"
  using assms by (rule search_literal)

lemma trim_examples:
  "trim '' Hist '' = ''Hist''" "trim ''100'' = ''100''" "trim ''90abc'' = ''90abc''"
  by (simp_all add: trim_def is_space_def)

lemma Number_js_examples:
  "Number_js ''Hist'' = NaN" "Number_js ''100'' = Fin 100" "Number_js ''90abc'' = NaN"
  by (simp_all add: Number_js_def trim_def is_space_def non_decimal_def str_decimal_def split_sign_def
      unsigned_decimal_def is_digit_def exponent_part_def digits_value_def digit_of_def pow10_def)

lemma spec_examples:
  "filter (search_spec ''Hist'') (lessons seeded) = [lessons seeded ! 4]"
  "filter (search_spec ''100'') (lessons seeded) = [lessons seeded ! 0]"
  "filter (search_spec ''90abc'') (lessons seeded) = []"
  by (simp_all add: search_spec_def Number_js_examples seeded_lessons lesson_text_field lesson_num_field
      contains_ci_def num_equals_def toLowerCase_def to_lower_def sublist_code)

theorem search_plain_term_witness:
  "get_search False (Some '' Hist '') seeded = Some (ok_docs [lessons seeded ! 4])
   \<and> get_search False (Some ''100'') seeded = Some (ok_docs [lessons seeded ! 0])
   \<and> get_search False (Some ''90abc'') seeded = Some (ok_docs [])"
  using search_plain_term [of "'' Hist ''" seeded] search_plain_term [of "''100''" seeded]
    search_plain_term [of "''90abc''" seeded]
  by (simp add: trim_examples spec_examples rx_special_def)

section \<open>The seeder: properties\<close>

lemma strip_with_ids:
  "\<forall>d \<in> set ds. ''_id'' \<notin> fst ` set d \<Longrightarrow>
   map (filter (\<lambda>kv. fst kv \<noteq> ''_id'')) (with_ids k ds) = ds"
proof (induction ds arbitrary: k)
  case Nil
  then show ?case by simp
next
  case (Cons d ds)
  have "''_id'' \<notin> fst ` set d" using Cons.prems by simp
  then have "\<forall>kv \<in> set d. fst kv \<noteq> ''_id''" by (metis imageI)
  then have "filter (\<lambda>kv. fst kv \<noteq> ''_id'') d = d"
    by (simp add: filter_id_conv)
  then show ?case using Cons by simp
qed

lemma length_with_ids: "length (with_ids k ds) = length ds"
  by (induction ds arbitrary: k) auto

lemma seed_lessons_no_id: "\<forall>d \<in> set seed_lessons. ''_id'' \<notin> fst ` set d"
  by (simp add: seed_lessons_def lesson_doc_def)

lemma seed_success:
  assumes "uri env = Some u" "u \<noteq> []"
    and "\<not> connect_fails env" "\<not> deleteMany_fails env" "\<not> insertMany_fails env"
  shows "seed env st =
           (0, st\<lparr>lessons := with_ids (next_oid st) seed_lessons, next_oid := next_oid st + 10\<rparr>)"
  using assms
  by (simp add: seed_def deleteMany_lessons_def insertMany_lessons_def seed_lessons_def)

lemma with_ids_seed_lessons:
  "with_ids k seed_lessons =
     [(''_id'', Oid k) # lesson_doc 1 ''Mathematics'' ''Hendon'' 100 5 ''fa-solid fa-calculator''
        ''https://img.icons8.com/color/240/calculator--v1.png'',
      (''_id'', Oid (k + 1)) # lesson_doc 2 ''English'' ''Colindale'' 80 5 ''fa-solid fa-book-open''
        ''https://img.icons8.com/color/240/book-reading.png'',
      (''_id'', Oid (k + 2)) # lesson_doc 3 ''Biology'' ''Golders Green'' 90 5 ''fa-solid fa-seedling''
        ''https://img.icons8.com/color/240/dna-helix.png'',
      (''_id'', Oid (k + 3)) # lesson_doc 4 ''Chemistry'' ''Brent Cross'' 70 5 ''fa-solid fa-flask''
        ''https://img.icons8.com/color/240/test-tube.png'',
      (''_id'', Oid (k + 4)) # lesson_doc 5 ''History'' ''Hendon'' 50 5 ''fa-solid fa-landmark''
        ''https://img.icons8.com/color/240/scroll.png'',
      (''_id'', Oid (k + 5)) # lesson_doc 6 ''Physics'' ''Colindale'' 95 5 ''fa-solid fa-atom''
        ''https://img.icons8.com/color/240/physics.png'',
      (''_id'', Oid (k + 6)) # lesson_doc 7 ''Art'' ''Brent Cross'' 60 5 ''fa-solid fa-palette''
        ''https://img.icons8.com/color/240/art-prices.png'',
      (''_id'', Oid (k + 7)) # lesson_doc 8 ''Geography'' ''Golders Green'' 85 5 ''fa-solid fa-earth-europe''
        ''https://img.icons8.com/color/240/globe--v1.png'',
      (''_id'', Oid (k + 8)) # lesson_doc 9 ''Computer Science'' ''Hendon'' 120 5 ''fa-solid fa-code''
        ''https://img.icons8.com/color/240/source-code.png'',
      (''_id'', Oid (k + 9)) # lesson_doc 10 ''Economics'' ''Colindale'' 110 5 ''fa-solid fa-chart-line''
        ''https://img.icons8.com/color/240/economic-improvement.png'']"
  by (simp add: seed_lessons_def eval_nat_numeral)

lemma lesson_fields:
  "field ((''_id'', v) # lesson_doc i s l p sp ic im) ''id'' = Some (Json (JNum (of_int i)))"
  "field ((''_id'', v) # lesson_doc i s l p sp ic im) ''subject'' = Some (Json (JStr s))"
  "field ((''_id'', v) # lesson_doc i s l p sp ic im) ''location'' = Some (Json (JStr l))"
  "field ((''_id'', v) # lesson_doc i s l p sp ic im) ''price'' = Some (Json (JNum (of_int p)))"
  "field ((''_id'', v) # lesson_doc i s l p sp ic im) ''spaces'' = Some (Json (JNum (of_int sp)))"
  by (simp_all add: field_def lesson_doc_def)

text \<open>
  C5. Whatever the store holds before, a run of the seeder that has a connection
  string and whose driver calls all succeed leaves the lessons collection with
  exactly the ten catalog records, each with a fresh \<^verbatim>\<open>_id\<close> and otherwise as
  enumerated in \<^verbatim>\<open>seed.js\<close>: ids 1 to 10, the listed subjects, locations and prices,
  and 5 spaces each. Nothing of the earlier collection survives, because
  \<^verbatim>\<open>deleteMany\<close> runs before \<^verbatim>\<open>insertMany\<close>.
\<close>

theorem seed_resets_lessons:
  assumes "uri env = Some u" "u \<noteq> []"
    and "\<not> connect_fails env" "\<not> deleteMany_fails env" "\<not> insertMany_fails env"
  shows "lessons (snd (seed env st)) = with_ids (next_oid st) seed_lessons
       \<and> length (lessons (snd (seed env st))) = 10
       \<and> map (filter (\<lambda>kv. fst kv \<noteq> ''_id'')) (lessons (snd (seed env st))) = seed_lessons
       \<and> map (\<lambda>d. field d ''id'') (lessons (snd (seed env st)))
           = map (\<lambda>i. Some (Json (JNum (of_int i)))) [1, 2, 3, 4, 5, 6, 7, 8, 9, 10]
       \<and> map (\<lambda>d. field d ''subject'') (lessons (snd (seed env st)))
           = map (\<lambda>s. Some (Json (JStr s)))
               [''Mathematics'', ''English'', ''Biology'', ''Chemistry'', ''History'', ''Physics'',
                ''Art'', ''Geography'', ''Computer Science'', ''Economics'']
       \<and> map (\<lambda>d. field d ''location'') (lessons (snd (seed env st)))
           = map (\<lambda>s. Some (Json (JStr s)))
               [''Hendon'', ''Colindale'', ''Golders Green'', ''Brent Cross'', ''Hendon'', ''Colindale'',
                ''Brent Cross'', ''Golders Green'', ''Hendon'', ''Colindale'']
       \<and> map (\<lambda>d. field d ''price'') (lessons (snd (seed env st)))
           = map (\<lambda>i. Some (Json (JNum (of_int i)))) [100, 80, 90, 70, 50, 95, 60, 85, 120, 110]
       \<and> (\<forall>d \<in> set (lessons (snd (seed env st))). field d ''spaces'' = Some (Json (JNum 5)))"
proof -
  have s: "lessons (snd (seed env st)) = with_ids (next_oid st) seed_lessons"
    using seed_success[OF assms] by simp
  have 1: "length (with_ids (next_oid st) seed_lessons) = 10"
    by (simp add: length_with_ids seed_lessons_def)
  have 2: "map (filter (\<lambda>kv. fst kv \<noteq> ''_id'')) (with_ids (next_oid st) seed_lessons) = seed_lessons"
    using seed_lessons_no_id by (rule strip_with_ids)
  have 3: "map (\<lambda>d. field d ''id'') (with_ids (next_oid st) seed_lessons)
           = map (\<lambda>i. Some (Json (JNum (of_int i)))) [1, 2, 3, 4, 5, 6, 7, 8, 9, 10]"
    by (simp add: with_ids_seed_lessons lesson_fields)
  have 4: "map (\<lambda>d. field d ''subject'') (with_ids (next_oid st) seed_lessons)
           = map (\<lambda>s. Some (Json (JStr s)))
               [''Mathematics'', ''English'', ''Biology'', ''Chemistry'', ''History'', ''Physics'',
                ''Art'', ''Geography'', ''Computer Science'', ''Economics'']"
    by (simp add: with_ids_seed_lessons lesson_fields)
  have 5: "map (\<lambda>d. field d ''location'') (with_ids (next_oid st) seed_lessons)
           = map (\<lambda>s. Some (Json (JStr s)))
               [''Hendon'', ''Colindale'', ''Golders Green'', ''Brent Cross'', ''Hendon'', ''Colindale'',
                ''Brent Cross'', ''Golders Green'', ''Hendon'', ''Colindale'']"
    by (simp add: with_ids_seed_lessons lesson_fields)
  have 6: "map (\<lambda>d. field d ''price'') (with_ids (next_oid st) seed_lessons)
           = map (\<lambda>i. Some (Json (JNum (of_int i)))) [100, 80, 90, 70, 50, 95, 60, 85, 120, 110]"
    by (simp add: with_ids_seed_lessons lesson_fields)
  have 7: "\<forall>d \<in> set (with_ids (next_oid st) seed_lessons). field d ''spaces'' = Some (Json (JNum 5))"
    by (simp add: with_ids_seed_lessons lesson_fields)
  from 1 2 3 4 5 6 7 show ?thesis unfolding s by blast
qed

theorem seed_resets_lessons_witness:
  "lessons (snd (seed \<lparr>uri = Some ''mongodb://localhost/lesson_app'', connect_fails = False,
                        deleteMany_fails = False, insertMany_fails = False\<rparr>
                  \<lparr>lessons = [[(''id'', Json (JNum 77))]], orders = [], next_oid = 10\<rparr>))
     = with_ids 10 seed_lessons
   \<and> length (lessons (snd (seed \<lparr>uri = Some ''mongodb://localhost/lesson_app'', connect_fails = False,
                        deleteMany_fails = False, insertMany_fails = False\<rparr>
                  \<lparr>lessons = [[(''id'', Json (JNum 77))]], orders = [], next_oid = 10\<rparr>))) = 10"
proof -
  let ?env = "\<lparr>uri = Some ''mongodb://localhost/lesson_app'', connect_fails = False,
                deleteMany_fails = False, insertMany_fails = False\<rparr>"
  let ?st = "\<lparr>lessons = [[(''id'', Json (JNum 77))]], orders = [], next_oid = 10\<rparr>"
  have u: "uri ?env = Some ''mongodb://localhost/lesson_app''" by simp
  have n: "''mongodb://localhost/lesson_app'' \<noteq> []" by simp
  have c: "\<not> connect_fails ?env" "\<not> deleteMany_fails ?env" "\<not> insertMany_fails ?env" by simp_all
  have k: "next_oid ?st = 10" by simp
  from seed_resets_lessons [OF u n c, of ?st]
  have "lessons (snd (seed ?env ?st)) = with_ids (next_oid ?st) seed_lessons"
    and "length (lessons (snd (seed ?env ?st))) = 10"
    by blast+
  then show ?thesis unfolding k by blast
qed

text \<open>
  C8. The exit status of the seeder. A missing (or empty) connection string ends the
  process with status 1, and a run without failure ends with status 0. But when
  \<^verbatim>\<open>connect\<close>, \<^verbatim>\<open>deleteMany\<close> or \<^verbatim>\<open>insertMany\<close> throws, the \<^verbatim>\<open>catch\<close> block only logs the
  error: the process ends with status 0 as well.
\<close>

theorem seed_failure_exit_status:
  "fst (seed \<lparr>uri = None, connect_fails = False, deleteMany_fails = False, insertMany_fails = False\<rparr> seeded) = 1
   \<and> fst (seed \<lparr>uri = Some ''mongodb://localhost/lesson_app'', connect_fails = False,
                deleteMany_fails = False, insertMany_fails = False\<rparr> seeded) = 0
   \<and> fst (seed \<lparr>uri = Some ''mongodb://localhost/lesson_app'', connect_fails = True,
                deleteMany_fails = False, insertMany_fails = False\<rparr> seeded) = 0
   \<and> fst (seed \<lparr>uri = Some ''mongodb://localhost/lesson_app'', connect_fails = False,
                deleteMany_fails = True, insertMany_fails = False\<rparr> seeded) = 0
   \<and> fst (seed \<lparr>uri = Some ''mongodb://localhost/lesson_app'', connect_fails = False,
                deleteMany_fails = False, insertMany_fails = True\<rparr> seeded) = 0"
  by (simp add: seed_def Let_def)

end
